theory Spec2Isabelle
  imports Complex_Main
begin

section \<open>Strings and paths\<close>

text \<open>
  JavaScript strings are modelled as \<open>string\<close> (lists of code units). The helpers below
  are the built-in string and path operations the renderers call, with the behaviour the
  language and Node's POSIX \<open>path\<close> module document for them.
\<close>

text \<open>\<open>a || b\<close> on strings: the empty string is falsy.\<close>

definition orElse :: "string \<Rightarrow> string \<Rightarrow> string" where
  "orElse a b = (if a \<noteq> [] then a else b)"

text \<open>\<open>String.prototype.startsWith\<close>.\<close>

fun startsWith :: "string \<Rightarrow> string \<Rightarrow> bool" where
  "startsWith s [] = True"
| "startsWith [] (p # ps) = False"
| "startsWith (c # cs) (p # ps) = (c = p \<and> startsWith cs ps)"

text \<open>
  \<open>String.prototype.replace\<close> with a string pattern: only the first occurrence is
  replaced. The replacement used by the source is \<open>~\<close>, which holds no \<open>$\<close> pattern.
\<close>

fun replace :: "string \<Rightarrow> string \<Rightarrow> string \<Rightarrow> string" where
  "replace [] pat rep = (if pat = [] then rep else [])"
| "replace (c # cs) pat rep =
     (if startsWith (c # cs) pat then rep @ drop (length pat) (c # cs)
      else c # replace cs pat rep)"

text \<open>\<open>String.prototype.slice\<close> with one non-negative argument.\<close>

definition slice :: "string \<Rightarrow> nat \<Rightarrow> string" where
  "slice s n = drop n s"

text \<open>\<open>String.prototype.charAt\<close>: the one-unit string at the index, or the empty string.\<close>

definition charAt :: "string \<Rightarrow> nat \<Rightarrow> string" where
  "charAt s i = take 1 (drop i s)"

text \<open>
  \<open>String.prototype.split\<close> with a one-character separator: never returns the empty
  array, the empty string splits to one empty part.
\<close>

fun split :: "char \<Rightarrow> string \<Rightarrow> string list" where
  "split sep [] = [[]]"
| "split sep (c # cs) =
     (if c = sep then [] # split sep cs
      else (case split sep cs of [] \<Rightarrow> [[c]] | p # ps \<Rightarrow> (c # p) # ps))"

text \<open>\<open>Array.prototype.join\<close>.\<close>

fun join :: "string list \<Rightarrow> string \<Rightarrow> string" where
  "join [] sep = []"
| "join [p] sep = p"
| "join (p # q # ps) sep = p @ sep @ join (q # ps) sep"

text \<open>
  \<open>path.basename\<close> (POSIX): trailing slashes are skipped, then the text after the last
  remaining slash is returned; the result is empty for the empty path and for a path of
  slashes only.
\<close>

definition basename :: "string \<Rightarrow> string" where
  "basename p = rev (takeWhile (\<lambda>c. c \<noteq> CHR ''/'') (dropWhile (\<lambda>c. c = CHR ''/'') (rev p)))"

section \<open>Segment data\<close>

record SegmentData =
  "text" :: string
  bgColor :: string
  fgColor :: string

record PowerlineColors =
  reset :: string
  modeBg :: string
  modeFg :: string
  gitBg :: string
  gitFg :: string
  modelBg :: string
  modelFg :: string
  sessionBg :: string
  sessionFg :: string
  blockBg :: string
  blockFg :: string
  todayBg :: string
  todayFg :: string
  tmuxBg :: string
  tmuxFg :: string
  contextBg :: string
  contextFg :: string
  metricsBg :: string
  metricsFg :: string
  versionBg :: string
  versionFg :: string
  warningBg :: string
  warningFg :: string

section \<open>The directory segment\<close>

datatype DirectoryStyle = StyleFull | StyleFish | StyleBasename

record DirectorySegmentConfig =
  dir_enabled :: bool
  showBasename :: "bool option"
  style :: "DirectoryStyle option"

text \<open>
  The part of the hook data the directory renderer reads: \<open>workspace?.current_dir\<close>,
  \<open>workspace?.project_dir\<close> and \<open>cwd\<close>, each of which may be absent.
\<close>

record Workspace =
  current_dir :: "string option"
  project_dir :: "string option"

record DirHookData =
  workspace :: "Workspace option"
  cwd :: "string option"

text \<open>The two environment variables read by \<open>renderDirectory\<close>.\<close>

record Env =
  HOME :: "string option"
  USERPROFILE :: "string option"

text \<open>\<open>x || y\<close> where \<open>x\<close> may be absent or empty.\<close>

definition truthyStr :: "string option \<Rightarrow> string option" where
  "truthyStr x = (case x of None \<Rightarrow> None | Some s \<Rightarrow> if s = [] then None else Some s)"

definition getCurrentDir :: "DirHookData \<Rightarrow> string" where
  "getCurrentDir hookData =
     (case truthyStr (case workspace hookData of None \<Rightarrow> None | Some w \<Rightarrow> current_dir w) of
        Some d \<Rightarrow> d
      | None \<Rightarrow> (case truthyStr (cwd hookData) of Some d \<Rightarrow> d | None \<Rightarrow> ''/''))"

definition getProjectDir :: "DirHookData \<Rightarrow> string option" where
  "getProjectDir hookData =
     (case workspace hookData of None \<Rightarrow> None | Some w \<Rightarrow> project_dir w)"

definition getDisplayDirectoryName :: "string \<Rightarrow> string option \<Rightarrow> string" where
  "getDisplayDirectoryName currentDir projectDir =
     (if startsWith currentDir ''~'' then currentDir
      else (case truthyStr projectDir of
        Some pd \<Rightarrow>
          (if pd \<noteq> currentDir then
             (if startsWith currentDir pd then
                orElse (orElse (slice currentDir (length pd + 1)) (basename pd)) ''project''
              else orElse (basename currentDir) ''root'')
           else orElse (basename currentDir) ''root'')
      | None \<Rightarrow> orElse (basename currentDir) ''root''))"

text \<open>
  \<open>abbreviateFishStyle\<close>; \<open>sep\<close> is \<open>path.sep\<close>, a single character fixed by the
  platform.
\<close>

definition abbreviateFishStyle :: "char \<Rightarrow> string \<Rightarrow> string" where
  "abbreviateFishStyle sep dirPath =
     (let parts = split sep dirPath in
      join (map (\<lambda>(index, part).
                   if index = length parts - 1 then part
                   else if part = ''~'' \<or> part = [] then part
                   else charAt part 0)
                (enumerate 0 parts))
           [sep])"

definition renderDirectory ::
  "char \<Rightarrow> Env \<Rightarrow> DirHookData \<Rightarrow> PowerlineColors \<Rightarrow> DirectorySegmentConfig option \<Rightarrow> SegmentData"
where
  "renderDirectory sep env hookData colors config =
     (let currentDir = getCurrentDir hookData;
          projectDir = getProjectDir hookData;
          style' = (case (case config of None \<Rightarrow> None | Some c \<Rightarrow> style c) of
                      Some s \<Rightarrow> s
                    | None \<Rightarrow>
                        (if (case config of None \<Rightarrow> False | Some c \<Rightarrow> showBasename c = Some True)
                         then StyleBasename else StyleFull))
      in if style' = StyleBasename then
           \<lparr>text = orElse (basename currentDir) ''root'',
            bgColor = modeBg colors, fgColor = modeFg colors\<rparr>
         else
           (let homeDir = (case truthyStr (HOME env) of
                             Some h \<Rightarrow> Some h
                           | None \<Rightarrow> truthyStr (USERPROFILE env));
                displayDir = (case homeDir of
                                Some h \<Rightarrow> if startsWith currentDir h
                                          then replace currentDir h ''~'' else currentDir
                              | None \<Rightarrow> currentDir);
                displayProjectDir = (case homeDir of
                                Some h \<Rightarrow>
                                  (case truthyStr projectDir of
                                     Some pd \<Rightarrow> if startsWith pd h
                                               then Some (replace pd h ''~'') else projectDir
                                   | None \<Rightarrow> projectDir)
                              | None \<Rightarrow> projectDir);
                dirName = getDisplayDirectoryName displayDir displayProjectDir;
                dirName' = (if style' = StyleFish then abbreviateFishStyle sep dirName
                            else dirName)
            in \<lparr>text = dirName', bgColor = modeBg colors, fgColor = modeFg colors\<rparr>))"


text \<open>
  The two auxiliary functions below restate the per-part rule of \<open>abbreviateFishStyle\<close>
  by position (all parts but the last, then the last); they are used in proofs only.
\<close>

definition fishPart :: "string \<Rightarrow> string" where
  "fishPart part = (if part = ''~'' \<or> part = [] then part else charAt part 0)"

definition fishParts :: "string list \<Rightarrow> string list" where
  "fishParts parts =
     map (\<lambda>(index, part).
            if index = length parts - 1 then part
            else if part = ''~'' \<or> part = [] then part
            else charAt part 0)
         (enumerate 0 parts)"

section \<open>The source-control segment\<close>

text \<open>
  Template literals print a count in decimal. Counts are integers; \<open>numToString\<close> is
  \<open>Number.prototype.toString\<close> on them.
\<close>

fun showNat :: "nat \<Rightarrow> string" where
  "showNat n =
     (if n < 10 then [''0123456789'' ! n]
      else showNat (n div 10) @ [''0123456789'' ! (n mod 10)])"

declare showNat.simps [simp del]

definition numToString :: "int \<Rightarrow> string" where
  "numToString i = (if i < 0 then ''-'' @ showNat (nat (- i)) else showNat (nat i))"

record PowerlineSymbols =
  right :: string
  left :: string
  branch :: string
  model :: string
  git_clean :: string
  git_dirty :: string
  git_conflicts :: string
  git_ahead :: string
  git_behind :: string
  git_worktree :: string
  git_tag :: string
  git_sha :: string
  git_upstream :: string
  git_stash :: string
  git_time :: string
  session_cost :: string
  block_cost :: string
  today_cost :: string
  context_time :: string
  metrics_response :: string
  metrics_last_response :: string
  metrics_duration :: string
  metrics_messages :: string
  metrics_lines_added :: string
  metrics_lines_removed :: string
  metrics_burn :: string
  version :: string

text \<open>
  The fields of the source-control snapshot that \<open>renderGit\<close> reads. Optional fields are
  \<open>None\<close> when absent. The snapshot's branch field is named \<open>gitBranch\<close> here, the
  name \<open>branch\<close> being the symbol set's.
\<close>

record GitInfo =
  gitBranch :: string
  status :: string
  ahead :: int
  behind :: int
  repoName :: "string option"
  isWorktree :: "bool option"
  operation :: "string option"
  tag :: "string option"
  sha :: "string option"
  staged :: "int option"
  unstaged :: "int option"
  untracked :: "int option"
  conflicts :: "int option"
  upstream :: "string option"
  stashCount :: "int option"
  timeSinceCommit :: "int option"

record GitSegmentConfig =
  git_enabled :: bool
  showSha :: "bool option"
  showAheadBehind :: "bool option"
  showWorkingTree :: "bool option"
  showOperation :: "bool option"
  showTag :: "bool option"
  showTimeSinceCommit :: "bool option"
  showStashCount :: "bool option"
  showUpstream :: "bool option"
  showRepoName :: "bool option"

text \<open>\<open>config?.flag\<close> used as a condition: true only when the flag is present and true.\<close>

definition flagOn :: "'c option \<Rightarrow> ('c \<Rightarrow> bool option) \<Rightarrow> bool" where
  "flagOn config flag = (case config of None \<Rightarrow> False | Some c \<Rightarrow> flag c = Some True)"

text \<open>\<open>config?.flag !== false\<close>: true unless the flag is present and false.\<close>

definition flagNotOff :: "'c option \<Rightarrow> ('c \<Rightarrow> bool option) \<Rightarrow> bool" where
  "flagNotOff config flag = (case config of None \<Rightarrow> True | Some c \<Rightarrow> flag c \<noteq> Some False)"

text \<open>\<open>n && n > 0\<close> on an optional count.\<close>

definition positive :: "int option \<Rightarrow> bool" where
  "positive n = (case n of None \<Rightarrow> False | Some k \<Rightarrow> k > 0)"

text \<open>
  \<open>renderGit\<close>. The array \<open>parts\<close> is built by the pushes of the source, in their
  order; \<open>formatTimeSince\<close> is the imported formatter.
\<close>

definition renderGit ::
  "(int \<Rightarrow> string) \<Rightarrow> PowerlineSymbols \<Rightarrow> GitInfo option \<Rightarrow> PowerlineColors
     \<Rightarrow> GitSegmentConfig option \<Rightarrow> SegmentData option"
where
  "renderGit formatTimeSince symbols gitInfo' colors config =
     (case gitInfo' of
        None \<Rightarrow> None
      | Some gitInfo \<Rightarrow>
         (let parts0 =
                (case truthyStr (repoName gitInfo) of
                   Some rn \<Rightarrow>
                     (if flagOn config showRepoName
                      then [rn] @ (if isWorktree gitInfo = Some True
                                   then [git_worktree symbols] else [])
                      else [])
                 | None \<Rightarrow> []);
              parts1 =
                (case truthyStr (operation gitInfo) of
                   Some opn \<Rightarrow> (if flagOn config showOperation then [''['' @ opn @ '']''] else [])
                 | None \<Rightarrow> []);
              parts2 = [branch symbols @ '' '' @ gitBranch gitInfo];
              parts3 =
                (case truthyStr (tag gitInfo) of
                   Some t \<Rightarrow> (if flagOn config showTag then [git_tag symbols @ '' '' @ t] else [])
                 | None \<Rightarrow> []);
              parts4 =
                (case truthyStr (sha gitInfo) of
                   Some h \<Rightarrow> (if flagOn config showSha then [git_sha symbols @ '' '' @ h] else [])
                 | None \<Rightarrow> []);
              parts5 =
                (if flagNotOff config showAheadBehind then
                   (if ahead gitInfo > 0 \<and> behind gitInfo > 0 then
                      [git_ahead symbols @ numToString (ahead gitInfo)
                         @ git_behind symbols @ numToString (behind gitInfo)]
                    else if ahead gitInfo > 0 then
                      [git_ahead symbols @ numToString (ahead gitInfo)]
                    else if behind gitInfo > 0 then
                      [git_behind symbols @ numToString (behind gitInfo)]
                    else [])
                 else []);
              parts6 =
                (if flagOn config showWorkingTree then
                   (let counts =
                          (if positive (staged gitInfo)
                           then [''+'' @ numToString (the (staged gitInfo))] else [])
                        @ (if positive (unstaged gitInfo)
                           then [''~'' @ numToString (the (unstaged gitInfo))] else [])
                        @ (if positive (untracked gitInfo)
                           then [''?'' @ numToString (the (untracked gitInfo))] else [])
                        @ (if positive (conflicts gitInfo)
                           then [''!'' @ numToString (the (conflicts gitInfo))] else [])
                    in if length counts > 0 then [''('' @ join counts '' '' @ '')''] else [])
                 else []);
              parts7 =
                (case truthyStr (upstream gitInfo) of
                   Some u \<Rightarrow> (if flagOn config showUpstream then [git_upstream symbols @ u] else [])
                 | None \<Rightarrow> []);
              parts8 =
                (if flagOn config showStashCount \<and> positive (stashCount gitInfo)
                 then [git_stash symbols @ '' '' @ numToString (the (stashCount gitInfo))]
                 else []);
              parts9 =
                (case timeSinceCommit gitInfo of
                   Some t \<Rightarrow>
                     (if flagOn config showTimeSinceCommit
                      then [git_time symbols @ '' '' @ formatTimeSince t] else [])
                 | None \<Rightarrow> []);
              gitStatusIcon =
                (if status gitInfo = ''conflicts'' then git_conflicts symbols
                 else if status gitInfo = ''dirty'' then git_dirty symbols
                 else git_clean symbols);
              parts = parts0 @ parts1 @ parts2 @ parts3 @ parts4 @ parts5 @ parts6
                        @ parts7 @ parts8 @ parts9 @ [gitStatusIcon]
          in Some \<lparr>text = join parts '' '', bgColor = gitBg colors, fgColor = gitFg colors\<rparr>))"


section \<open>Usage display and budgets\<close>

text \<open>
  Costs and token counts are JavaScript numbers; they are modelled as exact reals (no
  rounding, no NaN), \<open>null\<close> and \<open>undefined\<close> as \<open>None\<close>.
\<close>

datatype BudgetTier = TierNone | TierOk | TierWarning | TierExceeded

record BudgetStatus =
  tier :: BudgetTier
  displayText :: string

text \<open>
  Modelled from the spec: \<open>getBudgetStatus\<close> of \<open>utils/budget\<close> is imported by the
  segment renderer but is not among the source files. The tier follows the specification of
  the budget evaluator: the percentage is \<open>value / ceiling \<times> 100\<close>, not capped; a
  percentage of 100 or more is \<open>exceeded\<close>, otherwise one at or above the threshold is
  \<open>warning\<close>, otherwise \<open>ok\<close>; a ceiling that is not positive disables the evaluation.
\<close>

definition budgetPercentage :: "real \<Rightarrow> real \<Rightarrow> real" where
  "budgetPercentage val budget = val / budget * 100"

definition budgetTier :: "real \<Rightarrow> real \<Rightarrow> real \<Rightarrow> BudgetTier" where
  "budgetTier val budget threshold =
     (if budget \<le> 0 then TierNone
      else if budgetPercentage val budget \<ge> 100 then TierExceeded
      else if budgetPercentage val budget \<ge> threshold then TierWarning
      else TierOk)"

text \<open>
  Modelled from the spec: the status returned by \<open>getBudgetStatus\<close> carries the tier and
  a short display suffix. The specification leaves the wording of the suffix open, so it is
  the parameter \<open>suffix\<close>, a function of the tier and the percentage.
\<close>

definition getBudgetStatus ::
  "(BudgetTier \<Rightarrow> real \<Rightarrow> string) \<Rightarrow> real \<Rightarrow> real \<Rightarrow> real \<Rightarrow> BudgetStatus"
where
  "getBudgetStatus suffix val budget threshold =
     (let t = budgetTier val budget threshold in
      \<lparr>tier = t,
       displayText = (if t = TierNone then [] else suffix t (budgetPercentage val budget))\<rparr>)"

datatype BudgetType = BudgetCost | BudgetTokens


text \<open>
  The imported formatters \<open>formatCost\<close>, \<open>formatTokens\<close> and \<open>formatTokenBreakdown\<close>
  are parameters; \<open>'tb\<close> is the type of a token breakdown.
\<close>

record 'tb Formatters =
  formatCost :: "real option \<Rightarrow> string"
  formatTokens :: "real option \<Rightarrow> string"
  formatTokenBreakdown :: "'tb option \<Rightarrow> string"

definition formatUsageDisplay ::
  "'tb Formatters \<Rightarrow> real option \<Rightarrow> real option \<Rightarrow> 'tb option \<Rightarrow> string \<Rightarrow> string"
where
  "formatUsageDisplay F cost tokens tokenBreakdown type' =
     (if type' = ''cost'' then formatCost F cost
      else if type' = ''tokens'' then formatTokens F tokens
      else if type' = ''both'' then formatCost F cost @ '' ('' @ formatTokens F tokens @ '')''
      else if type' = ''breakdown'' then formatTokenBreakdown F tokenBreakdown
      else formatCost F cost)"

text \<open>
  The choice of the value compared with the budget, lines 673 to 681 of
  \<open>formatUsageWithBudget\<close>.
\<close>

definition selectBudgetValue ::
  "BudgetType option \<Rightarrow> real option \<Rightarrow> real option \<Rightarrow> real option"
where
  "selectBudgetValue budgetType' cost tokens =
     (if budgetType' = Some BudgetTokens \<and> tokens \<noteq> None then tokens
      else if budgetType' = Some BudgetCost \<and> cost \<noteq> None then cost
      else if budgetType' = None \<and> cost \<noteq> None then cost
      else None)"

text \<open>
  \<open>formatUsageWithBudget\<close>. The parameter \<open>gbs\<close> is the imported \<open>getBudgetStatus\<close>.
  An absent \<open>warningThreshold\<close> argument takes the declared default 80; \<open>budget && budget > 0\<close>
  holds for a present, positive budget only.
\<close>

definition formatUsageWithBudget ::
  "'tb Formatters \<Rightarrow> (real \<Rightarrow> real \<Rightarrow> real \<Rightarrow> BudgetStatus) \<Rightarrow> real option \<Rightarrow> real option
     \<Rightarrow> 'tb option \<Rightarrow> string \<Rightarrow> real option \<Rightarrow> real option \<Rightarrow> BudgetType option \<Rightarrow> string"
where
  "formatUsageWithBudget F gbs cost tokens tokenBreakdown type' budget warningThreshold' budgetType' =
     (let threshold = (case warningThreshold' of None \<Rightarrow> 80 | Some w \<Rightarrow> w);
          baseDisplay = formatUsageDisplay F cost tokens tokenBreakdown type'
      in case budget of
           None \<Rightarrow> baseDisplay
         | Some b \<Rightarrow>
             (if b \<noteq> 0 \<and> b > 0 then
                (case selectBudgetValue budgetType' cost tokens of
                   Some budgetValue \<Rightarrow> baseDisplay @ displayText (gbs budgetValue b threshold)
                 | None \<Rightarrow> baseDisplay)
              else baseDisplay))"

section \<open>The session segment\<close>

record 'tb SessionUsage =
  cost :: "real option"
  calculatedCost :: "real option"
  officialCost :: "real option"
  tokens :: "real option"
  tokenBreakdown :: "'tb option"


datatype CostSource = Calculated | Official

record UsageSegmentConfig =
  usage_enabled :: bool
  usageType :: string
  costSource :: "CostSource option"





section \<open>Themes and color resolution\<close>

datatype ColorSupport = SupportNone | SupportAnsi | SupportAnsi256 | SupportTruecolor

text \<open>\<open>config.display.colorCompatibility\<close>: \<open>"auto"\<close> or one of the four levels.\<close>

datatype ColorCompatibility = CompatAuto | CompatFixed ColorSupport

record SegmentColor =
  bg :: string
  fg :: string

text \<open>
  The interface \<open>ColorTheme\<close>. Four of its fields are named \<open>themeModel\<close>,
  \<open>themeSession\<close>, \<open>themeContext\<close> and \<open>themeVersion\<close> here: \<open>model\<close>, \<open>session\<close>
  and \<open>version\<close> are fields of other records, and \<open>context\<close> is a reserved word.
\<close>

record ColorTheme =
  directory :: SegmentColor
  git :: SegmentColor
  themeModel :: SegmentColor
  themeSession :: SegmentColor
  block :: SegmentColor
  today :: SegmentColor
  tmux :: SegmentColor
  themeContext :: SegmentColor
  metrics :: SegmentColor
  themeVersion :: SegmentColor
  warning :: "SegmentColor option"

text \<open>
  The eighteen theme tables imported by \<open>themes/index.ts\<close>. Their contents are not among
  the source files, so they are parameters.
\<close>

record ThemeTables =
  darkTheme :: ColorTheme
  darkAnsi256Theme :: ColorTheme
  darkAnsiTheme :: ColorTheme
  lightTheme :: ColorTheme
  lightAnsi256Theme :: ColorTheme
  lightAnsiTheme :: ColorTheme
  nordTheme :: ColorTheme
  nordAnsi256Theme :: ColorTheme
  nordAnsiTheme :: ColorTheme
  tokyoNightTheme :: ColorTheme
  tokyoNightAnsi256Theme :: ColorTheme
  tokyoNightAnsiTheme :: ColorTheme
  rosePineTheme :: ColorTheme
  rosePineAnsi256Theme :: ColorTheme
  rosePineAnsiTheme :: ColorTheme
  gruvboxTheme :: ColorTheme
  gruvboxAnsi256Theme :: ColorTheme
  gruvboxAnsiTheme :: ColorTheme

text \<open>
  The own entries of the object literal \<open>BUILT_IN_THEMES\<close>, in declaration order.
\<close>

definition BUILT_IN_THEMES :: "ThemeTables \<Rightarrow> (string \<times> ColorTheme) list" where
  "BUILT_IN_THEMES T =
     [(''dark'', darkTheme T),
      (''dark-ansi256'', darkAnsi256Theme T),
      (''dark-ansi'', darkAnsiTheme T),
      (''light'', lightTheme T),
      (''light-ansi256'', lightAnsi256Theme T),
      (''light-ansi'', lightAnsiTheme T),
      (''nord'', nordTheme T),
      (''nord-ansi256'', nordAnsi256Theme T),
      (''nord-ansi'', nordAnsiTheme T),
      (''tokyo-night'', tokyoNightTheme T),
      (''tokyo-night-ansi256'', tokyoNightAnsi256Theme T),
      (''tokyo-night-ansi'', tokyoNightAnsiTheme T),
      (''rose-pine'', rosePineTheme T),
      (''rose-pine-ansi256'', rosePineAnsi256Theme T),
      (''rose-pine-ansi'', rosePineAnsiTheme T),
      (''gruvbox'', gruvboxTheme T),
      (''gruvbox-ansi256'', gruvboxAnsi256Theme T),
      (''gruvbox-ansi'', gruvboxAnsiTheme T)]"

text \<open>
  What an index into \<open>BUILT_IN_THEMES\<close>, or the custom table of the configuration, can
  be at run time: one of the built-in tables; a member that the object literal inherits
  from \<open>Object.prototype\<close>, which is truthy and has none of a theme's properties; or a
  table of the configuration, which has the properties it was given.
\<close>

datatype ThemeValue =
    BuiltInTable ColorTheme
  | InheritedMember
  | CustomTable "string \<Rightarrow> SegmentColor option"

text \<open>The property names that every plain object inherits from \<open>Object.prototype\<close>.\<close>

definition objectPrototypeNames :: "string list" where
  "objectPrototypeNames =
     [''constructor'', ''__defineGetter__'', ''__defineSetter__'', ''hasOwnProperty'',
      ''__lookupGetter__'', ''__lookupSetter__'', ''isPrototypeOf'',
      ''propertyIsEnumerable'', ''toString'', ''valueOf'', ''__proto__'',
      ''toLocaleString'']"

text \<open>
  \<open>BUILT_IN_THEMES[name]\<close>: an own entry, else an inherited member, else \<open>undefined\<close>.
\<close>

definition lookupBuiltIn :: "ThemeTables \<Rightarrow> string \<Rightarrow> ThemeValue option" where
  "lookupBuiltIn T name =
     (case map_of (BUILT_IN_THEMES T) name of
        Some t \<Rightarrow> Some (BuiltInTable t)
      | None \<Rightarrow> if name \<in> set objectPrototypeNames then Some InheritedMember else None)"

definition getTheme :: "ThemeTables \<Rightarrow> string \<Rightarrow> ColorSupport option \<Rightarrow> ThemeValue option" where
  "getTheme T themeName colorSupport =
     (case lookupBuiltIn T themeName of
        None \<Rightarrow> None
      | Some baseTheme \<Rightarrow>
          (case (if colorSupport = Some SupportNone \<or> colorSupport = Some SupportAnsi
                 then lookupBuiltIn T (themeName @ ''-ansi'') else None) of
             Some ansiVariant \<Rightarrow> Some ansiVariant
           | None \<Rightarrow>
               (case (if colorSupport = Some SupportAnsi256
                      then lookupBuiltIn T (themeName @ ''-ansi256'') else None) of
                  Some ansi256Variant \<Rightarrow> Some ansi256Variant
                | None \<Rightarrow> Some baseTheme)))"

text \<open>
  \<open>theme[key]\<close> for a key of \<open>ColorTheme\<close>: the pair, or \<open>None\<close> when the value has no
  such property.
\<close>

fun property :: "ThemeValue \<Rightarrow> string \<Rightarrow> SegmentColor option" where
  "property (BuiltInTable t) key =
     (if key = ''directory'' then Some (directory t)
      else if key = ''git'' then Some (git t)
      else if key = ''model'' then Some (themeModel t)
      else if key = ''session'' then Some (themeSession t)
      else if key = ''block'' then Some (block t)
      else if key = ''today'' then Some (today t)
      else if key = ''tmux'' then Some (tmux t)
      else if key = ''context'' then Some (themeContext t)
      else if key = ''metrics'' then Some (metrics t)
      else if key = ''version'' then Some (themeVersion t)
      else if key = ''warning'' then warning t
      else None)"
| "property InheritedMember key = None"
| "property (CustomTable table) key = table key"

text \<open>
  What the renderer imports from \<open>utils/colors\<close>, \<open>utils/constants\<close> and
  \<open>utils/terminal\<close>, as parameters: the detected color support, the three encoders, the
  background-to-foreground transform, the reset code, the terminal width and the visible
  length of a text; and the theme tables.
\<close>

record Externals =
  getColorSupport :: ColorSupport
  hexToAnsi :: "string \<Rightarrow> bool \<Rightarrow> string"
  hexToBasicAnsi :: "string \<Rightarrow> bool \<Rightarrow> string"
  hexTo256Ansi :: "string \<Rightarrow> bool \<Rightarrow> string"
  extractBgToFg :: "string \<Rightarrow> bool \<Rightarrow> string"
  RESET_CODE :: string
  getTerminalWidth :: "int option"
  visibleLength :: "string \<Rightarrow> nat"
  themes :: ThemeTables

datatype DisplayStyle = Powerline | Capsule | Minimal

record SegmentConfig =
  enabled :: bool

text \<open>
  \<open>LineConfig\<close>: the entries of \<open>segments\<close> in their iteration order. A value may be
  absent; every segment configuration extends \<open>SegmentConfig\<close>.
\<close>

record 'c LineConfig =
  segments :: "(string \<times> 'c SegmentConfig_scheme option) list"

record 'c DisplayConfig =
  displayStyle :: DisplayStyle
  colorCompatibility :: "ColorCompatibility option"
  autoWrap :: "bool option"
  lines :: "'c LineConfig list"

text \<open>
  \<open>config.colors\<close>: the custom table, read by property name (a table from the
  configuration file may lack properties).
\<close>

record ColorsConfig =
  custom :: "(string \<Rightarrow> SegmentColor option) option"

record 'c PowerlineConfig =
  theme :: string
  display :: "'c DisplayConfig"
  colors :: "ColorsConfig option"

datatype error = Error string

definition colorSupportOf :: "Externals \<Rightarrow> 'c PowerlineConfig \<Rightarrow> ColorSupport" where
  "colorSupportOf ext config =
     (let colorMode = (case colorCompatibility (display config) of
                         None \<Rightarrow> CompatAuto | Some m \<Rightarrow> m)
      in case colorMode of CompatAuto \<Rightarrow> getColorSupport ext | CompatFixed s \<Rightarrow> s)"

text \<open>
  The first failure of a sequence of results, or all the values: the order in which
  statements run and \<open>Promise.all\<close> settles.
\<close>

fun collect :: "(error + 'a) list \<Rightarrow> error + 'a list" where
  "collect [] = Inr []"
| "collect (Inl e # rs) = Inl e"
| "collect (Inr x # rs) = (case collect rs of Inl e \<Rightarrow> Inl e | Inr xs \<Rightarrow> Inr (x # xs))"

text \<open>
  The encoding of one color pair at a capability level: the body shared by
  \<open>getSegmentColors\<close> and by the computation of the warning pair in \<open>getThemeColors\<close>.
  At level \<open>none\<close> the pair is not read; at the other levels reading \<open>bg\<close> of an
  undefined pair is a run-time type error.
\<close>

definition encodePair ::
  "Externals \<Rightarrow> ColorSupport \<Rightarrow> SegmentColor option \<Rightarrow> error + SegmentColor"
where
  "encodePair ext colorSupport colors' =
     (if colorSupport = SupportNone then Inr \<lparr>bg = [], fg = []\<rparr>
      else (case colors' of
              None \<Rightarrow> Inl (Error ''TypeError'')
            | Some c \<Rightarrow>
                (if colorSupport = SupportAnsi then
                   Inr \<lparr>bg = hexToBasicAnsi ext (bg c) True, fg = hexToBasicAnsi ext (fg c) False\<rparr>
                 else if colorSupport = SupportAnsi256 then
                   Inr \<lparr>bg = hexTo256Ansi ext (bg c) True, fg = hexTo256Ansi ext (fg c) False\<rparr>
                 else
                   Inr \<lparr>bg = hexToAnsi ext (bg c) True, fg = hexToAnsi ext (fg c) False\<rparr>)))"

text \<open>Reading a property of a value that may be \<open>null\<close>: a type error on \<open>null\<close>.\<close>

definition readProperty :: "ThemeValue option \<Rightarrow> string \<Rightarrow> error + SegmentColor option" where
  "readProperty obj key =
     (case obj of None \<Rightarrow> Inl (Error ''TypeError'') | Some v \<Rightarrow> Inr (property v key))"

text \<open>
  \<open>getSegmentColors\<close>: \<open>colorTheme[segment] || fallbackTheme[segment]\<close>, then the
  encoding. The fallback theme is read only when the theme has no pair for the segment.
\<close>

definition getSegmentColors ::
  "Externals \<Rightarrow> ColorSupport \<Rightarrow> ThemeValue option \<Rightarrow> ThemeValue option \<Rightarrow> string
     \<Rightarrow> error + SegmentColor"
where
  "getSegmentColors ext colorSupport colorTheme fallbackTheme segment =
     (case readProperty colorTheme segment of
        Inl e \<Rightarrow> Inl e
      | Inr (Some c) \<Rightarrow> encodePair ext colorSupport (Some c)
      | Inr None \<Rightarrow>
          (case readProperty fallbackTheme segment of
             Inl e \<Rightarrow> Inl e
           | Inr colors' \<Rightarrow> encodePair ext colorSupport colors'))"

text \<open>The ten segments, in the order \<open>getThemeColors\<close> resolves them.\<close>

definition segmentKeys :: "string list" where
  "segmentKeys =
     [''directory'', ''git'', ''model'', ''session'', ''block'', ''today'', ''tmux'',
      ''context'', ''metrics'', ''version'']"

text \<open>
  The table built by \<open>getThemeColors\<close> from the chosen theme and the fallback theme: the
  ten pairs in order, then the warning pair (\<open>colorTheme.warning\<close> or red on white), then
  the record; \<open>ps ! i\<close> is the pair of the \<open>i\<close>-th segment.
\<close>

definition resolveColors ::
  "Externals \<Rightarrow> ColorSupport \<Rightarrow> ThemeValue option \<Rightarrow> ThemeValue option
     \<Rightarrow> error + PowerlineColors"
where
  "resolveColors ext colorSupport colorTheme fallbackTheme =
     (case collect (map (getSegmentColors ext colorSupport colorTheme fallbackTheme)
                        segmentKeys) of
        Inl e \<Rightarrow> Inl e
      | Inr ps \<Rightarrow>
          (case readProperty colorTheme ''warning'' of
             Inl e \<Rightarrow> Inl e
           | Inr w \<Rightarrow>
               (let warningThemeColors =
                      (case w of Some x \<Rightarrow> x | None \<Rightarrow> \<lparr>bg = ''#cc0000'', fg = ''#ffffff''\<rparr>)
                in case encodePair ext colorSupport (Some warningThemeColors) of
                     Inl e \<Rightarrow> Inl e
                   | Inr warning' \<Rightarrow>
                       Inr \<lparr>reset = (if colorSupport = SupportNone then [] else RESET_CODE ext),
                            modeBg = bg (ps ! 0), modeFg = fg (ps ! 0),
                            gitBg = bg (ps ! 1), gitFg = fg (ps ! 1),
                            modelBg = bg (ps ! 2), modelFg = fg (ps ! 2),
                            sessionBg = bg (ps ! 3), sessionFg = fg (ps ! 3),
                            blockBg = bg (ps ! 4), blockFg = fg (ps ! 4),
                            todayBg = bg (ps ! 5), todayFg = fg (ps ! 5),
                            tmuxBg = bg (ps ! 6), tmuxFg = fg (ps ! 6),
                            contextBg = bg (ps ! 7), contextFg = fg (ps ! 7),
                            metricsBg = bg (ps ! 8), metricsFg = fg (ps ! 8),
                            versionBg = bg (ps ! 9), versionFg = fg (ps ! 9),
                            warningBg = bg warning', warningFg = fg warning'\<rparr>)))"

text \<open>
  \<open>getThemeColors\<close>. The result is the thrown error, or the color table together with the
  warnings written by \<open>console.warn\<close>. The chosen theme is the custom table, or what
  \<open>getTheme\<close> finds for the name, or after the warning what it finds for \<open>dark\<close>; the
  fallback theme is what it finds for \<open>dark\<close>. The two non-null assertions of the source
  are not checked at run time, so a \<open>null\<close> shows only when a property of it is read.
\<close>

definition getThemeColors ::
  "Externals \<Rightarrow> 'c PowerlineConfig \<Rightarrow> error + (PowerlineColors \<times> string list)"
where
  "getThemeColors ext config =
     (let themeName = theme config;
          colorSupport = colorSupportOf ext config;
          chosen =
            (if themeName = ''custom'' then
               (case (case colors config of None \<Rightarrow> None | Some c \<Rightarrow> custom c) of
                  None \<Rightarrow>
                    Inl (Error ''Custom theme selected but no colors provided in configuration'')
                | Some table \<Rightarrow> Inr (Some (CustomTable table), []))
             else
               (case getTheme (themes ext) themeName (Some colorSupport) of
                  Some colorTheme \<Rightarrow> Inr (Some colorTheme, [])
                | None \<Rightarrow>
                    Inr (getTheme (themes ext) ''dark'' (Some colorSupport),
                         [''Built-in theme '' @ [CHR 0x27] @ themeName @ [CHR 0x27]
                            @ '' not found, falling back to '' @ [CHR 0x27] @ ''dark''
                            @ [CHR 0x27] @ '' theme''])))
      in case chosen of
           Inl e \<Rightarrow> Inl e
         | Inr (colorTheme, warnings) \<Rightarrow>
             (let fallbackTheme = getTheme (themes ext) ''dark'' (Some colorSupport)
              in case resolveColors ext colorSupport colorTheme fallbackTheme of
                   Inl e \<Rightarrow> Inl e
                 | Inr cols \<Rightarrow> Inr (cols, warnings)))"

section \<open>Emitting one physical line\<close>

record RenderedSegment = SegmentData +
  "type" :: string

definition getSegmentBgColor :: "string \<Rightarrow> PowerlineColors \<Rightarrow> string" where
  "getSegmentBgColor segmentType cols =
     (if segmentType = ''directory'' then modeBg cols
      else if segmentType = ''git'' then gitBg cols
      else if segmentType = ''model'' then modelBg cols
      else if segmentType = ''session'' then sessionBg cols
      else if segmentType = ''block'' then blockBg cols
      else if segmentType = ''today'' then todayBg cols
      else if segmentType = ''tmux'' then tmuxBg cols
      else if segmentType = ''context'' then contextBg cols
      else if segmentType = ''metrics'' then metricsBg cols
      else if segmentType = ''version'' then versionBg cols
      else modeBg cols)"

text \<open>
  \<open>formatSegment\<close>; \<open>nextBgColor\<close> is \<open>None\<close> for \<open>undefined\<close>, and the test
  \<open>if (nextBgColor)\<close> also fails for the empty string.
\<close>

definition formatSegment ::
  "Externals \<Rightarrow> PowerlineSymbols \<Rightarrow> 'c PowerlineConfig \<Rightarrow> string \<Rightarrow> string \<Rightarrow> string
     \<Rightarrow> string option \<Rightarrow> PowerlineColors \<Rightarrow> string"
where
  "formatSegment ext symbols config bgColor' fgColor' text' nextBgColor cols =
     (let isCapsuleStyle = (displayStyle (display config) = Capsule);
          isBasicMode = (colorSupportOf ext config = SupportAnsi)
      in if isCapsuleStyle then
           (let capFgColor = extractBgToFg ext bgColor' isBasicMode;
                leftCap = capFgColor @ left symbols @ reset cols;
                content = bgColor' @ fgColor' @ '' '' @ text' @ '' '' @ reset cols;
                rightCap = capFgColor @ right symbols @ reset cols
            in leftCap @ content @ rightCap)
         else
           (let output = bgColor' @ fgColor' @ '' '' @ text' @ '' ''
            in case truthyStr nextBgColor of
                 Some nb \<Rightarrow>
                   output @ reset cols @ nb @ extractBgToFg ext bgColor' isBasicMode
                     @ right symbols
               | None \<Rightarrow>
                   output @ reset cols @ extractBgToFg ext bgColor' isBasicMode
                     @ right symbols @ reset cols))"

text \<open>
  The part of a line that one loop iteration of \<open>buildLineFromSegments\<close> and of
  \<open>renderLine\<close> appends for a segment that has data: the capsule separator, then the
  formatted segment. \<open>i\<close> is the loop index and \<open>types\<close> lists the types of the
  segments the loop runs over.
\<close>

definition emitAt ::
  "Externals \<Rightarrow> PowerlineSymbols \<Rightarrow> 'c PowerlineConfig \<Rightarrow> PowerlineColors \<Rightarrow> string list
     \<Rightarrow> nat \<Rightarrow> string \<Rightarrow> string \<Rightarrow> string \<Rightarrow> string"
where
  "emitAt ext symbols config cols types i bgColor' fgColor' text' =
     (let isFirst = (i = 0);
          isLast = (i = length types - 1);
          nextBgColor = (if isLast then None
                         else Some (getSegmentBgColor (types ! (i + 1)) cols))
      in (if displayStyle (display config) = Capsule \<and> \<not> isFirst then '' '' else [])
           @ formatSegment ext symbols config bgColor' fgColor' text' nextBgColor cols)"

definition buildLineFromSegments ::
  "Externals \<Rightarrow> PowerlineSymbols \<Rightarrow> 'c PowerlineConfig \<Rightarrow> RenderedSegment list
     \<Rightarrow> PowerlineColors \<Rightarrow> string"
where
  "buildLineFromSegments ext symbols config segs cols =
     reset cols
       @ concat (map (\<lambda>(i, segment).
                        emitAt ext symbols config cols (map type segs) i
                          (bgColor segment) (fgColor segment) (text segment))
                     (enumerate 0 segs))"

text \<open>
  The enabled entries of a line, in order: \<open>Object.entries(lineConfig.segments)\<close> filtered
  on \<open>config?.enabled\<close>.
\<close>

definition enabledSegments :: "'c LineConfig \<Rightarrow> (string \<times> 'c SegmentConfig_scheme) list" where
  "enabledSegments lineConfig =
     concat (map (\<lambda>(ty, config).
                    case config of
                      None \<Rightarrow> []
                    | Some c \<Rightarrow> if enabled c then [(ty, c)] else [])
                 (segments lineConfig))"

text \<open>
  \<open>renderSegment\<close> dispatches on the segment type to the formatters and to the external
  providers; it is the parameter \<open>rs\<close>, which gives the data of a segment or \<open>None\<close>.
\<close>

type_synonym 'c renderSegment =
  "PowerlineColors \<Rightarrow> string \<times> 'c SegmentConfig_scheme \<Rightarrow> SegmentData option"

definition renderLine ::
  "Externals \<Rightarrow> PowerlineSymbols \<Rightarrow> 'c renderSegment \<Rightarrow> 'c PowerlineConfig \<Rightarrow> 'c LineConfig
     \<Rightarrow> error + string"
where
  "renderLine ext symbols rs config lineConfig =
     (case getThemeColors ext config of
        Inl e \<Rightarrow> Inl e
      | Inr (cols, warnings) \<Rightarrow>
          (let segs = enabledSegments lineConfig
           in Inr (reset cols
                   @ concat (map (\<lambda>(i, segment).
                                    case rs cols segment of
                                      None \<Rightarrow> []
                                    | Some segmentData \<Rightarrow>
                                        emitAt ext symbols config cols (map fst segs) i
                                          (bgColor segmentData) (fgColor segmentData)
                                          (text segmentData))
                                 (enumerate 0 segs)))))"

section \<open>Auto-wrap\<close>

definition calculateSegmentWidth ::
  "(string \<Rightarrow> nat) \<Rightarrow> DisplayStyle \<Rightarrow> RenderedSegment \<Rightarrow> bool \<Rightarrow> int"
where
  "calculateSegmentWidth vl sty segment isFirst =
     (let isCapsuleStyle = (sty = Capsule);
          textWidth = int (vl (text segment))
      in if isCapsuleStyle then textWidth + (4 + (if isFirst then 0 else 1))
         else textWidth + 3)"

text \<open>
  The packing loop of \<open>generateAutoWrapStatusline\<close>, lines 226 to 244. The state is the
  current physical line and its running width; the result lists the physical lines handed to
  \<open>buildLineFromSegments\<close>, in the order they are pushed.
\<close>

fun wrapLoop ::
  "(string \<Rightarrow> nat) \<Rightarrow> DisplayStyle \<Rightarrow> int \<Rightarrow> RenderedSegment list \<Rightarrow> RenderedSegment list \<Rightarrow> int
     \<Rightarrow> RenderedSegment list list"
where
  "wrapLoop vl sty terminalWidth [] currentLineSegments currentLineWidth =
     (if length currentLineSegments > 0 then [currentLineSegments] else [])"
| "wrapLoop vl sty terminalWidth (segment # rest) currentLineSegments currentLineWidth =
     (let segmentWidth = calculateSegmentWidth vl sty segment (length currentLineSegments = 0)
      in if length currentLineSegments > 0 \<and> currentLineWidth + segmentWidth > terminalWidth
         then currentLineSegments # wrapLoop vl sty terminalWidth rest [segment] (0 + segmentWidth)
         else wrapLoop vl sty terminalWidth rest (currentLineSegments @ [segment])
                (currentLineWidth + segmentWidth))"

text \<open>
  The physical lines produced for the rendered segments of one configured line: none when
  nothing was rendered, one when the terminal width is unknown or not positive, the packing
  otherwise.
\<close>

definition wrapSegments ::
  "(string \<Rightarrow> nat) \<Rightarrow> DisplayStyle \<Rightarrow> int option \<Rightarrow> RenderedSegment list \<Rightarrow> RenderedSegment list list"
where
  "wrapSegments vl sty terminalWidth renderedSegments =
     (if length renderedSegments = 0 then []
      else (case terminalWidth of
              None \<Rightarrow> [renderedSegments]
            | Some w \<Rightarrow> if w = 0 \<or> w \<le> 0 then [renderedSegments]
                        else wrapLoop vl sty w renderedSegments [] 0))"

text \<open>The width of a physical line: each segment counted at its place in the line.\<close>

definition lineWidth :: "(string \<Rightarrow> nat) \<Rightarrow> DisplayStyle \<Rightarrow> RenderedSegment list \<Rightarrow> int" where
  "lineWidth vl sty line =
     sum_list (map (\<lambda>(i, segment). calculateSegmentWidth vl sty segment (i = 0))
                   (enumerate 0 line))"

definition renderedSegmentsOf ::
  "'c renderSegment \<Rightarrow> PowerlineColors \<Rightarrow> 'c LineConfig \<Rightarrow> RenderedSegment list"
where
  "renderedSegmentsOf rs cols lineConfig =
     concat (map (\<lambda>segment.
                    case rs cols segment of
                      None \<Rightarrow> []
                    | Some segmentData \<Rightarrow>
                        [\<lparr>text = text segmentData, bgColor = bgColor segmentData,
                          fgColor = fgColor segmentData, type = fst segment\<rparr>])
                 (enabledSegments lineConfig))"

definition generateAutoWrapStatusline ::
  "Externals \<Rightarrow> PowerlineSymbols \<Rightarrow> 'c renderSegment \<Rightarrow> 'c PowerlineConfig \<Rightarrow> error + string"
where
  "generateAutoWrapStatusline ext symbols rs config =
     (case getThemeColors ext config of
        Inl e \<Rightarrow> Inl e
      | Inr (cols, warnings) \<Rightarrow>
          (let outputLines =
                 concat (map (\<lambda>lineConfig.
                                map (\<lambda>physical. buildLineFromSegments ext symbols config physical cols)
                                    (wrapSegments (visibleLength ext) (displayStyle (display config))
                                       (getTerminalWidth ext)
                                       (renderedSegmentsOf rs cols lineConfig)))
                             (lines (display config)))
           in Inr (join outputLines [CHR 0x0A])))"

text \<open>
  \<open>generateStatusline\<close>, from the point where the provider data has been gathered (that
  data reaches the segments through \<open>rs\<close>). The result is the rejection or the text;
  \<open>collect\<close> is \<open>Promise.all\<close> over the rendered lines.
\<close>

definition generateStatusline ::
  "Externals \<Rightarrow> PowerlineSymbols \<Rightarrow> 'c renderSegment \<Rightarrow> 'c PowerlineConfig \<Rightarrow> error + string"
where
  "generateStatusline ext symbols rs config =
     (if autoWrap (display config) = Some True then
        generateAutoWrapStatusline ext symbols rs config
      else
        (case collect (map (renderLine ext symbols rs config) (lines (display config))) of
           Inl e \<Rightarrow> Inl e
         | Inr ls \<Rightarrow> Inr (join (filter (\<lambda>line. length line > 0) ls) [CHR 0x0A])))"


section \<open>Auxiliary notions and sample values\<close>

text \<open>
  A physical line is acceptable at a terminal width when it is not empty and either its
  width is within the terminal width or it is a single segment that alone is too wide.
\<close>

definition lineFits :: "(string \<Rightarrow> nat) \<Rightarrow> DisplayStyle \<Rightarrow> int \<Rightarrow> RenderedSegment list \<Rightarrow> bool" where
  "lineFits vl sty terminalWidth line =
     (line \<noteq> [] \<and>
      (lineWidth vl sty line \<le> terminalWidth \<or>
       (\<exists>s. line = [s] \<and> terminalWidth < calculateSegmentWidth vl sty s True)))"

text \<open>Sample values, used to instantiate the theorems below at concrete inputs.\<close>

definition sampleTheme :: ColorTheme where
  "sampleTheme =
     \<lparr>directory = \<lparr>bg = ''#8b4513'', fg = ''#ffffff''\<rparr>,
      git = \<lparr>bg = ''#404040'', fg = ''#ffffff''\<rparr>,
      themeModel = \<lparr>bg = ''#2d2d2d'', fg = ''#ffffff''\<rparr>,
      themeSession = \<lparr>bg = ''#202020'', fg = ''#00ffff''\<rparr>,
      block = \<lparr>bg = ''#2a2a2a'', fg = ''#87ceeb''\<rparr>,
      today = \<lparr>bg = ''#1a1a1a'', fg = ''#98fb98''\<rparr>,
      tmux = \<lparr>bg = ''#2f4f2f'', fg = ''#90ee90''\<rparr>,
      themeContext = \<lparr>bg = ''#4a5568'', fg = ''#cbd5e0''\<rparr>,
      metrics = \<lparr>bg = ''#374151'', fg = ''#d1d5db''\<rparr>,
      themeVersion = \<lparr>bg = ''#3a3a4a'', fg = ''#b8b8d0''\<rparr>,
      warning = None\<rparr>"

definition sampleTables :: ThemeTables where
  "sampleTables =
     \<lparr>darkTheme = sampleTheme, darkAnsi256Theme = sampleTheme, darkAnsiTheme = sampleTheme,
      lightTheme = sampleTheme, lightAnsi256Theme = sampleTheme, lightAnsiTheme = sampleTheme,
      nordTheme = sampleTheme, nordAnsi256Theme = sampleTheme, nordAnsiTheme = sampleTheme,
      tokyoNightTheme = sampleTheme, tokyoNightAnsi256Theme = sampleTheme,
      tokyoNightAnsiTheme = sampleTheme,
      rosePineTheme = sampleTheme, rosePineAnsi256Theme = sampleTheme,
      rosePineAnsiTheme = sampleTheme,
      gruvboxTheme = sampleTheme, gruvboxAnsi256Theme = sampleTheme,
      gruvboxAnsiTheme = sampleTheme\<rparr>"

definition sampleExternals :: Externals where
  "sampleExternals =
     \<lparr>getColorSupport = SupportTruecolor,
      hexToAnsi = (\<lambda>hex isBg. (if isBg then ''B'' else ''F'') @ hex),
      hexToBasicAnsi = (\<lambda>hex isBg. (if isBg then ''b'' else ''f'') @ hex),
      hexTo256Ansi = (\<lambda>hex isBg. (if isBg then ''c'' else ''g'') @ hex),
      extractBgToFg = (\<lambda>code isBasic. ''x'' @ code),
      RESET_CODE = [CHR 0x1B] @ ''[0m'',
      getTerminalWidth = Some 80,
      visibleLength = length,
      themes = sampleTables\<rparr>"

definition sampleSymbols :: PowerlineSymbols where
  "sampleSymbols =
     \<lparr>right = ''>'', left = ''<'', branch = ''#'', model = ''M'',
      git_clean = ''ok'', git_dirty = ''*'', git_conflicts = ''!!'',
      git_ahead = ''^'', git_behind = ''v'', git_worktree = ''w'', git_tag = ''t'',
      git_sha = ''s'', git_upstream = ''u'', git_stash = ''st'', git_time = ''tm'',
      session_cost = ''S'', block_cost = ''B'', today_cost = ''T'', context_time = ''C'',
      metrics_response = ''r'', metrics_last_response = ''lr'', metrics_duration = ''d'',
      metrics_messages = ''m'', metrics_lines_added = ''+'', metrics_lines_removed = ''-'',
      metrics_burn = ''b'', version = ''V''\<rparr>"

text \<open>The color table of \<open>sampleTheme\<close> with \<open>sampleExternals\<close> at level truecolor.\<close>

definition sampleColors :: PowerlineColors where
  "sampleColors =
     \<lparr>reset = [CHR 0x1B] @ ''[0m'',
      modeBg = ''B#8b4513'', modeFg = ''F#ffffff'',
      gitBg = ''B#404040'', gitFg = ''F#ffffff'',
      modelBg = ''B#2d2d2d'', modelFg = ''F#ffffff'',
      sessionBg = ''B#202020'', sessionFg = ''F#00ffff'',
      blockBg = ''B#2a2a2a'', blockFg = ''F#87ceeb'',
      todayBg = ''B#1a1a1a'', todayFg = ''F#98fb98'',
      tmuxBg = ''B#2f4f2f'', tmuxFg = ''F#90ee90'',
      contextBg = ''B#4a5568'', contextFg = ''F#cbd5e0'',
      metricsBg = ''B#374151'', metricsFg = ''F#d1d5db'',
      versionBg = ''B#3a3a4a'', versionFg = ''F#b8b8d0'',
      warningBg = ''B#cc0000'', warningFg = ''F#ffffff''\<rparr>"

text \<open>A segment renderer that has data for the model segment only.\<close>

definition sampleRender :: "unit renderSegment" where
  "sampleRender cols segment =
     (if fst segment = ''model''
      then Some \<lparr>text = ''M Claude'', bgColor = modelBg cols, fgColor = modelFg cols\<rparr>
      else None)"

definition sampleConfig :: "string \<Rightarrow> unit LineConfig list \<Rightarrow> bool \<Rightarrow> unit PowerlineConfig" where
  "sampleConfig themeName ls wrap =
     \<lparr>theme = themeName,
      display = \<lparr>displayStyle = Powerline,
                 colorCompatibility = Some (CompatFixed SupportTruecolor),
                 autoWrap = Some wrap,
                 lines = ls\<rparr>,
      colors = None\<rparr>"

definition sampleSegment :: "string \<Rightarrow> string \<Rightarrow> RenderedSegment" where
  "sampleSegment ty txt' = \<lparr>text = txt', bgColor = [], fgColor = [], type = ty\<rparr>"

definition sampleFormatters :: "unit Formatters" where
  "sampleFormatters =
     \<lparr>formatCost = (\<lambda>c. ''$''), formatTokens = (\<lambda>t. ''tok''),
      formatTokenBreakdown = (\<lambda>b. ''in/out'')\<rparr>"


definition sampleGitInfo :: GitInfo where
  "sampleGitInfo =
     \<lparr>gitBranch = ''main'', status = ''dirty'', ahead = 2, behind = 0,
      repoName = None, isWorktree = None, operation = None, tag = Some ''v1.0'',
      sha = Some ''abc1234'', staged = Some 1, unstaged = None, untracked = None,
      conflicts = None, upstream = None, stashCount = None, timeSinceCommit = None\<rparr>"

definition sampleGitConfig :: GitSegmentConfig where
  "sampleGitConfig =
     \<lparr>git_enabled = True, showSha = Some False, showAheadBehind = Some True,
      showWorkingTree = Some False, showOperation = None, showTag = Some False,
      showTimeSinceCommit = None, showStashCount = None, showUpstream = None,
      showRepoName = None\<rparr>"

section \<open>Fish-style abbreviation\<close>

lemma split_nonempty: "split sep s \<noteq> []"
  by (induction s) (auto split: list.splits)

lemma split_no_sep: "p \<in> set (split sep s) \<Longrightarrow> sep \<notin> set p"
proof (induction s arbitrary: p)
  case Nil
  then show ?case by simp
next
  case (Cons c cs)
  then show ?case using split_nonempty [of sep cs]
    by (auto split: if_splits list.splits)
qed

lemma split_join:
  "parts \<noteq> [] \<Longrightarrow> (\<forall>p \<in> set parts. sep \<notin> set p) \<Longrightarrow> split sep (join parts [sep]) = parts"
proof (induction parts "[sep]" rule: join.induct)
  case 1
  then show ?case by simp
next
  case (2 p)
  then show ?case by (induction p) auto
next
  case (3 p q ps)
  then have ih: "split sep (join (q # ps) [sep]) = q # ps" by simp
  from 3 have "sep \<notin> set p" by simp
  then show ?case using ih by (induction p) auto
qed

lemma fishParts_eq:
  "parts \<noteq> [] \<Longrightarrow> fishParts parts = map fishPart (butlast parts) @ [last parts]"
  apply (rule nth_equalityI)
   apply (simp add: fishParts_def)
  apply (auto simp: fishParts_def nth_enumerate_eq nth_append fishPart_def nth_butlast
      last_conv_nth)
  done

lemma fishPart_idem: "fishPart (fishPart p) = fishPart p"
  by (cases p) (auto simp: fishPart_def charAt_def)

lemma fishPart_no_sep: "sep \<notin> set p \<Longrightarrow> sep \<notin> set (fishPart p)"
  by (cases p) (auto simp: fishPart_def charAt_def)

lemma fishParts_idem: "parts \<noteq> [] \<Longrightarrow> fishParts (fishParts parts) = fishParts parts"
  by (simp add: fishParts_eq butlast_append fishPart_idem)

lemma fishParts_no_sep:
  "parts \<noteq> [] \<Longrightarrow> \<forall>p \<in> set parts. sep \<notin> set p \<Longrightarrow>
   \<forall>p \<in> set (fishParts parts). sep \<notin> set p"
  by (auto simp: fishParts_eq fishPart_no_sep dest: in_set_butlastD)

lemma abbreviateFishStyle_parts:
  "abbreviateFishStyle sep p = join (fishParts (split sep p)) [sep]"
  by (simp add: abbreviateFishStyle_def fishParts_def Let_def)

lemma split_abbreviate: "split sep (abbreviateFishStyle sep p) = fishParts (split sep p)"
proof -
  have ne: "fishParts (split sep p) \<noteq> []"
    by (simp add: fishParts_eq split_nonempty)
  have "\<forall>q \<in> set (fishParts (split sep p)). sep \<notin> set q"
    by (rule fishParts_no_sep) (auto simp: split_nonempty dest: split_no_sep)
  with ne have "split sep (join (fishParts (split sep p)) [sep]) = fishParts (split sep p)"
    by (rule split_join)
  then show ?thesis by (simp only: abbreviateFishStyle_parts)
qed

lemma abbreviate_twice:
  "abbreviateFishStyle sep (abbreviateFishStyle sep p) = abbreviateFishStyle sep p"
proof -
  have "abbreviateFishStyle sep (abbreviateFishStyle sep p)
        = join (fishParts (split sep (abbreviateFishStyle sep p))) [sep]"
    by (rule abbreviateFishStyle_parts)
  also have "\<dots> = join (fishParts (fishParts (split sep p))) [sep]"
    by (simp only: split_abbreviate)
  also have "\<dots> = join (fishParts (split sep p)) [sep]"
    by (simp only: fishParts_idem [OF split_nonempty])
  also have "\<dots> = abbreviateFishStyle sep p"
    by (simp only: abbreviateFishStyle_parts)
  finally show ?thesis .
qed

text \<open>
  C8. Fish-style abbreviation is idempotent: abbreviating an abbreviated path gives the
  same path. The parts of the abbreviated path are those of the path with every part but
  the last cut to its first character, a part \<open>~\<close> and an empty part being kept, and the
  last part is the path's last part.
\<close>

theorem abbreviateFishStyle_idempotent:
  "abbreviateFishStyle sep (abbreviateFishStyle sep p) = abbreviateFishStyle sep p
   \<and> split sep (abbreviateFishStyle sep p)
       = map fishPart (butlast (split sep p)) @ [last (split sep p)]
   \<and> fishPart [c] = [c] \<and> fishPart ''~'' = ''~'' \<and> fishPart [] = []
   \<and> fishPart (c # d # cs) = (if c # d # cs = ''~'' then ''~'' else [c])"
  by (simp add: abbreviate_twice split_abbreviate fishParts_eq split_nonempty fishPart_def
      charAt_def)

section \<open>The directory segment on a path below home\<close>

text \<open>
  C6, as stated, fails: with the home directory \<open>/home/alice\<close> the directory text for
  \<open>/home/alice/proj/src\<close> in the project \<open>/home/alice/proj\<close> is not \<open>src\<close>.
\<close>

theorem directory_text_not_src:
  "text (renderDirectory (CHR ''/'') \<lparr>HOME = Some ''/home/alice'', USERPROFILE = None\<rparr>
           \<lparr>workspace = Some \<lparr>current_dir = Some ''/home/alice/proj/src'',
                               project_dir = Some ''/home/alice/proj''\<rparr>,
            cwd = None\<rparr>
           sampleColors
           (Some \<lparr>dir_enabled = True, showBasename = None, style = Some StyleFull\<rparr>))
   \<noteq> ''src''"
  by (simp add: renderDirectory_def getCurrentDir_def getProjectDir_def truthyStr_def
      getDisplayDirectoryName_def)

text \<open>
  C6, amended. With current directory \<open>/home/alice/proj/src\<close>, home directory
  \<open>/home/alice\<close>, project root \<open>/home/alice/proj\<close> and style \<open>full\<close>, the directory text
  is exactly \<open>~/proj/src\<close>: the home prefix is replaced by \<open>~\<close>, and a displayed path
  that starts with \<open>~\<close> is returned as it is, before the project root is looked at.
\<close>

theorem directory_text_home_relative:
  "text (renderDirectory sep \<lparr>HOME = Some ''/home/alice'', USERPROFILE = up\<rparr>
           \<lparr>workspace = Some \<lparr>current_dir = Some ''/home/alice/proj/src'',
                               project_dir = Some ''/home/alice/proj''\<rparr>,
            cwd = wd\<rparr>
           cols
           (Some \<lparr>dir_enabled = en, showBasename = sb, style = Some StyleFull\<rparr>))
   = ''~/proj/src''"
  by (simp add: renderDirectory_def getCurrentDir_def getProjectDir_def truthyStr_def
      getDisplayDirectoryName_def)

section \<open>The source-control segment on a branch that is ahead\<close>

text \<open>
  C7. For a snapshot with branch \<open>main\<close>, ahead 2, behind 0 and status dirty, with the
  ahead/behind display enabled and the working-tree, tag and sha displays disabled, and no
  repository name, operation, upstream, stash count or commit time in the snapshot, the text
  is the branch glyph, a space, \<open>main\<close>, a space, the ahead glyph, \<open>2\<close>, a space, and the
  dirty glyph. The behind count, being zero, is left out.
\<close>

theorem renderGit_ahead_dirty:
  assumes "showAheadBehind gitConfig \<noteq> Some False"
    and "showWorkingTree gitConfig \<noteq> Some True"
    and "showTag gitConfig \<noteq> Some True"
    and "showSha gitConfig \<noteq> Some True"
    and "gitBranch gi = ''main''" and "ahead gi = 2" and "behind gi = 0"
    and "status gi = ''dirty''"
    and "repoName gi = None" and "operation gi = None" and "upstream gi = None"
    and "stashCount gi = None" and "timeSinceCommit gi = None"
  shows "renderGit formatTimeSince symbols (Some gi) cols (Some gitConfig)
         = Some \<lparr>text = branch symbols @ '' main '' @ git_ahead symbols @ ''2 ''
                          @ git_dirty symbols,
                  bgColor = gitBg cols, fgColor = gitFg cols\<rparr>"
  using assms
  by (simp add: renderGit_def flagOn_def flagNotOff_def truthyStr_def positive_def
      numToString_def showNat.simps split: option.splits)

theorem renderGit_ahead_dirty_witness:
  "renderGit (\<lambda>t. ''now'') sampleSymbols (Some sampleGitInfo) sampleColors (Some sampleGitConfig)
   = Some \<lparr>text = ''# main ^2 *'', bgColor = gitBg sampleColors, fgColor = gitFg sampleColors\<rparr>"
  using renderGit_ahead_dirty [of sampleGitConfig sampleGitInfo "\<lambda>t. ''now''" sampleSymbols
      sampleColors]
  by (simp add: sampleGitConfig_def sampleGitInfo_def sampleSymbols_def)

section \<open>Auto-wrap packs segments within the terminal width\<close>

lemma lineWidth_Nil: "lineWidth vl sty [] = 0"
  by (simp add: lineWidth_def)

lemma lineWidth_single: "lineWidth vl sty [s] = calculateSegmentWidth vl sty s True"
  by (simp add: lineWidth_def)

lemma lineWidth_snoc:
  "lineWidth vl sty (l @ [s]) = lineWidth vl sty l + calculateSegmentWidth vl sty s (l = [])"
  by (simp add: lineWidth_def enumerate_append_eq)

lemma segmentWidth_first_least:
  "calculateSegmentWidth vl sty s True \<le> calculateSegmentWidth vl sty s b"
  by (simp add: calculateSegmentWidth_def Let_def)

lemma segmentWidth_pos: "0 < calculateSegmentWidth vl sty s b"
  by (simp add: calculateSegmentWidth_def Let_def)

lemma lineWidth_nonneg: "0 \<le> lineWidth vl sty l"
proof (induction l rule: rev_induct)
  case Nil
  show ?case by (simp add: lineWidth_Nil)
next
  case (snoc s l)
  then show ?case
    using segmentWidth_pos [of vl sty s "l = []"] by (simp add: lineWidth_snoc)
qed

lemma member_width_le_lineWidth:
  "s \<in> set l \<Longrightarrow> calculateSegmentWidth vl sty s True \<le> lineWidth vl sty l"
proof (induction l rule: rev_induct)
  case Nil
  then show ?case by simp
next
  case (snoc x l)
  show ?case
  proof (cases "s = x")
    case True
    then show ?thesis
      using lineWidth_nonneg [of vl sty l] segmentWidth_first_least [of vl sty x "l = []"]
      by (simp add: lineWidth_snoc)
  next
    case False
    with snoc have "calculateSegmentWidth vl sty s True \<le> lineWidth vl sty l" by simp
    then show ?thesis
      using segmentWidth_pos [of vl sty x "l = []"] by (simp add: lineWidth_snoc)
  qed
qed

text \<open>
  The width of a physical line in the words of the specification: the visible widths of
  the texts, plus 3 per segment in arrow style, or 4 per segment and 1 more for each
  segment after the first in capsule style.
\<close>

lemma lineWidth_overhead:
  "l \<noteq> [] \<Longrightarrow>
   lineWidth vl sty l
   = (\<Sum>s\<leftarrow>l. int (vl (text s)))
     + (if sty = Capsule then 4 * int (length l) + (int (length l) - 1)
        else 3 * int (length l))"
proof (induction l rule: rev_induct)
  case Nil
  then show ?case by simp
next
  case (snoc s l)
  show ?case
  proof (cases "l = []")
    case True
    then show ?thesis by (simp add: lineWidth_single calculateSegmentWidth_def Let_def)
  next
    case False
    with snoc have "lineWidth vl sty l
        = (\<Sum>s\<leftarrow>l. int (vl (text s)))
          + (if sty = Capsule then 4 * int (length l) + (int (length l) - 1)
             else 3 * int (length l))"
      by simp
    with False show ?thesis
      by (simp add: lineWidth_snoc calculateSegmentWidth_def Let_def)
  qed
qed

lemma lineFits_single: "lineFits vl sty tw [s]"
  by (auto simp: lineFits_def lineWidth_single)

text \<open>
  The invariant of the packing loop: the running width is at least the width of the
  current line, and it is within the terminal width once the line holds two segments.
\<close>

lemma wrapLoop_invariant:
  "lineWidth vl sty cur \<le> w \<Longrightarrow> (2 \<le> length cur \<longrightarrow> w \<le> tw) \<Longrightarrow>
   concat (wrapLoop vl sty tw segs cur w) = cur @ segs
   \<and> (\<forall>l \<in> set (wrapLoop vl sty tw segs cur w). lineFits vl sty tw l)"
proof (induction segs arbitrary: cur w)
  case Nil
  show ?case
  proof (cases cur)
    case Nil
    then show ?thesis by simp
  next
    case (Cons a as)
    note cur = this
    show ?thesis
    proof (cases as)
      case Nil
      with cur show ?thesis by (simp add: lineFits_single)
    next
      case (Cons b bs)
      with cur Nil.prems show ?thesis by (auto simp: lineFits_def)
    qed
  qed
next
  case (Cons s rest)
  let ?sw = "calculateSegmentWidth vl sty s (length cur = 0)"
  show ?case
  proof (cases "length cur > 0 \<and> w + ?sw > tw")
    case True
    have curfits: "lineFits vl sty tw cur"
    proof (cases "2 \<le> length cur")
      case True
      with Cons.prems show ?thesis by (auto simp: lineFits_def)
    next
      case False
      with \<open>length cur > 0 \<and> w + ?sw > tw\<close> have "length cur = 1" by linarith
      then obtain a where "cur = [a]" by (cases cur) auto
      then show ?thesis by (simp add: lineFits_single)
    qed
    have "lineWidth vl sty [s] \<le> 0 + ?sw"
      by (simp add: lineWidth_single segmentWidth_first_least)
    moreover have "2 \<le> length [s] \<longrightarrow> 0 + ?sw \<le> tw" by simp
    ultimately have ih:
      "concat (wrapLoop vl sty tw rest [s] (0 + ?sw)) = [s] @ rest
       \<and> (\<forall>l \<in> set (wrapLoop vl sty tw rest [s] (0 + ?sw)). lineFits vl sty tw l)"
      by (rule Cons.IH)
    from True have ne: "cur \<noteq> []" by auto
    from True ne ih curfits show ?thesis by (auto simp: Let_def)
  next
    case False
    have a: "lineWidth vl sty (cur @ [s]) \<le> w + ?sw"
      using Cons.prems(1) by (simp add: lineWidth_snoc)
    have b: "2 \<le> length (cur @ [s]) \<longrightarrow> w + ?sw \<le> tw"
      using False by auto
    from a b have ih:
      "concat (wrapLoop vl sty tw rest (cur @ [s]) (w + ?sw)) = (cur @ [s]) @ rest
       \<and> (\<forall>l \<in> set (wrapLoop vl sty tw rest (cur @ [s]) (w + ?sw)). lineFits vl sty tw l)"
      by (rule Cons.IH)
    from False ih show ?thesis by (auto simp: Let_def)
  qed
qed

text \<open>
  C1. For every terminal width of at least 1 and every non-empty list of rendered segments
  of one configured line, the physical lines of the auto-wrap hold the segments in their
  order, none split or lost; no physical line is empty; each physical line has a width
  (visible text widths plus the per-segment overhead at the segment's place in the line)
  within the terminal width, unless it is a single segment that alone is wider than the
  terminal; and a segment wider than the terminal is always alone on its line.
\<close>

theorem autoWrap_lines_within_width:
  assumes "1 \<le> terminalWidth" and "renderedSegments \<noteq> []"
  shows "concat (wrapSegments vl sty (Some terminalWidth) renderedSegments) = renderedSegments
    \<and> (\<forall>line \<in> set (wrapSegments vl sty (Some terminalWidth) renderedSegments).
          line \<noteq> []
          \<and> (lineWidth vl sty line \<le> terminalWidth
             \<or> (\<exists>s. line = [s] \<and> terminalWidth < calculateSegmentWidth vl sty s True))
          \<and> lineWidth vl sty line
              = (\<Sum>s\<leftarrow>line. int (vl (text s)))
                + (if sty = Capsule then 4 * int (length line) + (int (length line) - 1)
                   else 3 * int (length line))
          \<and> (\<forall>s \<in> set line.
                terminalWidth < calculateSegmentWidth vl sty s True \<longrightarrow> line = [s]))"
proof -
  let ?ls = "wrapLoop vl sty terminalWidth renderedSegments [] 0"
  have inv: "concat ?ls = [] @ renderedSegments \<and> (\<forall>l \<in> set ?ls. lineFits vl sty terminalWidth l)"
    by (rule wrapLoop_invariant) (simp_all add: lineWidth_Nil)
  have eq: "wrapSegments vl sty (Some terminalWidth) renderedSegments = ?ls"
    using assms by (simp add: wrapSegments_def)
  have each: "line \<noteq> []
          \<and> (lineWidth vl sty line \<le> terminalWidth
             \<or> (\<exists>s. line = [s] \<and> terminalWidth < calculateSegmentWidth vl sty s True))
          \<and> lineWidth vl sty line
              = (\<Sum>s\<leftarrow>line. int (vl (text s)))
                + (if sty = Capsule then 4 * int (length line) + (int (length line) - 1)
                   else 3 * int (length line))
          \<and> (\<forall>s \<in> set line.
                terminalWidth < calculateSegmentWidth vl sty s True \<longrightarrow> line = [s])"
    if mem: "line \<in> set ?ls" for line
  proof -
    from inv mem have fits: "lineFits vl sty terminalWidth line" by blast
    then have ne: "line \<noteq> []" by (simp add: lineFits_def)
    have alone: "line = [s]"
      if "s \<in> set line" and "terminalWidth < calculateSegmentWidth vl sty s True" for s
    proof -
      from that have "terminalWidth < lineWidth vl sty line"
        using member_width_le_lineWidth [of s line vl sty] by linarith
      with fits obtain x where "line = [x]" by (auto simp: lineFits_def)
      with that(1) show ?thesis by simp
    qed
    from fits ne alone show ?thesis
      using lineWidth_overhead [OF ne, of vl sty] by (auto simp: lineFits_def)
  qed
  from inv have "concat ?ls = renderedSegments" by simp
  with each show ?thesis unfolding eq by blast
qed

theorem autoWrap_lines_within_width_witness:
  "wrapSegments length Capsule (Some 20)
     [sampleSegment ''directory'' ''proj'', sampleSegment ''git'' ''main'',
      sampleSegment ''model'' ''a very long model name'', sampleSegment ''version'' ''v1'']
   = [[sampleSegment ''directory'' ''proj'', sampleSegment ''git'' ''main''],
      [sampleSegment ''model'' ''a very long model name''], [sampleSegment ''version'' ''v1'']]
   \<and> concat (wrapSegments length Capsule (Some 20)
        [sampleSegment ''directory'' ''proj'', sampleSegment ''git'' ''main'',
         sampleSegment ''model'' ''a very long model name'', sampleSegment ''version'' ''v1''])
     = [sampleSegment ''directory'' ''proj'', sampleSegment ''git'' ''main'',
        sampleSegment ''model'' ''a very long model name'', sampleSegment ''version'' ''v1'']"
proof -
  have h1: "(1::int) \<le> 20" by simp
  have h2: "[sampleSegment ''directory'' ''proj'', sampleSegment ''git'' ''main'',
      sampleSegment ''model'' ''a very long model name'', sampleSegment ''version'' ''v1'']
      \<noteq> []" by simp
  have ev: "wrapSegments length Capsule (Some 20)
     [sampleSegment ''directory'' ''proj'', sampleSegment ''git'' ''main'',
      sampleSegment ''model'' ''a very long model name'', sampleSegment ''version'' ''v1'']
   = [[sampleSegment ''directory'' ''proj'', sampleSegment ''git'' ''main''],
      [sampleSegment ''model'' ''a very long model name''], [sampleSegment ''version'' ''v1'']]"
    by (simp add: wrapSegments_def calculateSegmentWidth_def sampleSegment_def)
  from autoWrap_lines_within_width [OF h1 h2, of length Capsule] ev show ?thesis
    by blast
qed

section \<open>Budget status\<close>


section \<open>No budget, no suffix\<close>

text \<open>
  C3. When the budget ceiling is absent, zero or negative, \<open>formatUsageWithBudget\<close> returns
  the base display text, whatever the base text, the usage values, the threshold and the
  budget kind are, and whatever \<open>getBudgetStatus\<close> would return.
\<close>

theorem no_budget_no_suffix:
  assumes "budget = None \<or> (\<exists>b. budget = Some b \<and> b \<le> 0)"
  shows "formatUsageWithBudget F gbs cst tks tb ty budget wt bt
         = formatUsageDisplay F cst tks tb ty"
  using assms by (auto simp: formatUsageWithBudget_def)

theorem no_budget_no_suffix_witness:
  "formatUsageWithBudget sampleFormatters (getBudgetStatus (\<lambda>t p. ''!'')) (Some 5) (Some 1200)
     None ''both'' (Some (- 10)) (Some 80) (Some BudgetCost) = ''$ (tok)''
   \<and> formatUsageWithBudget sampleFormatters (getBudgetStatus (\<lambda>t p. ''!'')) (Some 5) (Some 1200)
     None ''both'' (Some 0) (Some 80) (Some BudgetCost) = ''$ (tok)''
   \<and> formatUsageWithBudget sampleFormatters (getBudgetStatus (\<lambda>t p. ''!'')) (Some 5) (Some 1200)
     None ''both'' None (Some 80) (Some BudgetCost) = ''$ (tok)''"
proof -
  have h1: "Some (- 10 :: real) = None \<or> (\<exists>b. Some (- 10 :: real) = Some b \<and> b \<le> 0)" by simp
  have h2: "Some (0 :: real) = None \<or> (\<exists>b. Some (0 :: real) = Some b \<and> b \<le> 0)" by simp
  have h3: "(None :: real option) = None \<or> (\<exists>b. (None :: real option) = Some b \<and> b \<le> 0)"
    by simp
  have base: "formatUsageDisplay sampleFormatters (Some 5) (Some 1200) None ''both'' = ''$ (tok)''"
    by (simp add: formatUsageDisplay_def sampleFormatters_def)
  show ?thesis
    by (simp add: no_budget_no_suffix [OF h1] no_budget_no_suffix [OF h2]
        no_budget_no_suffix [OF h3] base)
qed

section \<open>A zero session threshold\<close>



section \<open>Theme resolution\<close>

lemma getTheme_dark: "\<exists>t. getTheme T ''dark'' cs = Some (BuiltInTable t)"
  by (simp add: getTheme_def lookupBuiltIn_def BUILT_IN_THEMES_def)

lemma getTheme_unknown:
  "themeName \<notin> set (map fst (BUILT_IN_THEMES T)) \<Longrightarrow> themeName \<notin> set objectPrototypeNames \<Longrightarrow>
   getTheme T themeName cs = None"
  by (simp add: getTheme_def lookupBuiltIn_def map_of_eq_None_iff [THEN iffD2])

lemma builtIn_keys: "map fst (BUILT_IN_THEMES T) = map fst (BUILT_IN_THEMES sampleTables)"
  by (simp add: BUILT_IN_THEMES_def)

lemma inherited_names_apart:
  "list_all (\<lambda>n. n \<notin> set (map fst (BUILT_IN_THEMES sampleTables))
                \<and> n @ ''-ansi'' \<notin> set (map fst (BUILT_IN_THEMES sampleTables))
                \<and> n @ ''-ansi256'' \<notin> set (map fst (BUILT_IN_THEMES sampleTables))
                \<and> n @ ''-ansi'' \<notin> set objectPrototypeNames
                \<and> n @ ''-ansi256'' \<notin> set objectPrototypeNames)
            objectPrototypeNames"
  by code_simp

text \<open>
  An inherited name is no key of the table, and neither are its variant names, so the
  lookup finds the inherited member and no variant.
\<close>

lemma lookup_inherited:
  assumes "name \<in> set objectPrototypeNames"
  shows "lookupBuiltIn T name = Some InheritedMember
         \<and> lookupBuiltIn T (name @ ''-ansi'') = None
         \<and> lookupBuiltIn T (name @ ''-ansi256'') = None"
proof -
  from inherited_names_apart assms
  have apart: "name \<notin> set (map fst (BUILT_IN_THEMES T))
      \<and> name @ ''-ansi'' \<notin> set (map fst (BUILT_IN_THEMES T))
      \<and> name @ ''-ansi256'' \<notin> set (map fst (BUILT_IN_THEMES T))
      \<and> name @ ''-ansi'' \<notin> set objectPrototypeNames
      \<and> name @ ''-ansi256'' \<notin> set objectPrototypeNames"
    unfolding builtIn_keys [of T] list_all_iff by blast
  then have "map_of (BUILT_IN_THEMES T) name = None"
    and "map_of (BUILT_IN_THEMES T) (name @ ''-ansi'') = None"
    and "map_of (BUILT_IN_THEMES T) (name @ ''-ansi256'') = None"
    by (simp_all add: map_of_eq_None_iff)
  with apart assms show ?thesis by (simp add: lookupBuiltIn_def)
qed

lemma getTheme_inherited:
  "themeName \<in> set objectPrototypeNames \<Longrightarrow> getTheme T themeName cs = Some InheritedMember"
  by (simp add: getTheme_def lookup_inherited)

lemma colorSupportOf_theme [simp]:
  "colorSupportOf ext (config\<lparr>theme := n\<rparr>) = colorSupportOf ext config"
  by (simp add: colorSupportOf_def)

lemma property_of_segment:
  "key \<in> set segmentKeys \<Longrightarrow> \<exists>c. property (BuiltInTable t) key = Some c"
  by (auto simp: segmentKeys_def)

lemma encodePair_defined: "\<exists>p. encodePair ext cs (Some c) = Inr p"
  by (simp add: encodePair_def)

lemma getSegmentColors_defined:
  assumes "key \<in> set segmentKeys"
  shows "\<exists>p. getSegmentColors ext cs (Some ct) (Some (BuiltInTable fb)) key = Inr p"
proof (cases "property ct key")
  case None
  from assms obtain c where "property (BuiltInTable fb) key = Some c"
    using property_of_segment by blast
  with None show ?thesis
    using encodePair_defined [of ext cs c] by (simp add: getSegmentColors_def readProperty_def)
next
  case (Some c)
  then show ?thesis
    using encodePair_defined [of ext cs c] by (simp add: getSegmentColors_def readProperty_def)
qed

lemma collect_defined:
  "(\<And>x. x \<in> set xs \<Longrightarrow> \<exists>y. f x = Inr y) \<Longrightarrow> \<exists>ys. collect (map f xs) = Inr ys"
proof (induction xs)
  case Nil
  show ?case by simp
next
  case (Cons x xs)
  then obtain y where y: "f x = Inr y" by auto
  from Cons obtain ys where "collect (map f xs) = Inr ys" by auto
  with y show ?case by simp
qed

lemma resolveColors_defined:
  "\<exists>cols. resolveColors ext cs (Some ct) (Some (BuiltInTable fb)) = Inr cols"
proof -
  obtain ps where ps:
    "collect (map (getSegmentColors ext cs (Some ct) (Some (BuiltInTable fb))) segmentKeys)
     = Inr ps"
    using collect_defined [of segmentKeys
        "getSegmentColors ext cs (Some ct) (Some (BuiltInTable fb))"]
      getSegmentColors_defined [of _ ext cs ct fb]
    by blast
  show ?thesis
    unfolding resolveColors_def ps
    by (simp add: readProperty_def encodePair_def Let_def)
qed

text \<open>
  Where the built-in lookup does what is meant: a name that is no key of the table, no
  inherited member and not \<open>custom\<close> resolves to the color table of \<open>dark\<close> at the same
  level, with one warning.
\<close>

lemma unknown_name_resolves_as_dark:
  assumes "themeName \<notin> set (map fst (BUILT_IN_THEMES (themes ext)))"
    and "themeName \<notin> set objectPrototypeNames"
    and "themeName \<noteq> ''custom''"
  shows "\<exists>cols. getThemeColors ext (config\<lparr>theme := ''dark''\<rparr>) = Inr (cols, [])
         \<and> getThemeColors ext (config\<lparr>theme := themeName\<rparr>)
             = Inr (cols,
                    [''Built-in theme '' @ [CHR 0x27] @ themeName @ [CHR 0x27]
                       @ '' not found, falling back to '' @ [CHR 0x27] @ ''dark''
                       @ [CHR 0x27] @ '' theme''])"
proof -
  let ?cs = "colorSupportOf ext config"
  obtain d where d: "getTheme (themes ext) ''dark'' (Some ?cs) = Some (BuiltInTable d)"
    using getTheme_dark by blast
  obtain cols where cols:
    "resolveColors ext ?cs (Some (BuiltInTable d)) (Some (BuiltInTable d)) = Inr cols"
    using resolveColors_defined by blast
  have unknown: "getTheme (themes ext) themeName (Some ?cs) = None"
    using assms(1,2) by (rule getTheme_unknown)
  have a: "getThemeColors ext (config\<lparr>theme := ''dark''\<rparr>) = Inr (cols, [])"
    using d cols by (simp add: getThemeColors_def)
  have b: "getThemeColors ext (config\<lparr>theme := themeName\<rparr>)
             = Inr (cols,
                    [''Built-in theme '' @ [CHR 0x27] @ themeName @ [CHR 0x27]
                       @ '' not found, falling back to '' @ [CHR 0x27] @ ''dark''
                       @ [CHR 0x27] @ '' theme''])"
    using assms(3) d cols unknown by (simp add: getThemeColors_def)
  from a b show ?thesis by blast
qed

text \<open>
  A name that the table inherits from \<open>Object.prototype\<close> is found by the lookup, so no
  warning is written, at every level and for every configuration.
\<close>

lemma inherited_name_no_warning:
  assumes "themeName \<in> set objectPrototypeNames"
  shows "\<exists>cols. getThemeColors ext (config\<lparr>theme := themeName\<rparr>) = Inr (cols, [])"
proof -
  let ?cs = "colorSupportOf ext config"
  obtain d where d: "getTheme (themes ext) ''dark'' (Some ?cs) = Some (BuiltInTable d)"
    using getTheme_dark by blast
  obtain cols where cols:
    "resolveColors ext ?cs (Some InheritedMember) (Some (BuiltInTable d)) = Inr cols"
    using resolveColors_defined by blast
  have found: "getTheme (themes ext) themeName (Some ?cs) = Some InheritedMember"
    using assms by (rule getTheme_inherited)
  have "''custom'' \<notin> set objectPrototypeNames" by code_simp
  with assms have "themeName \<noteq> ''custom''" by blast
  with d cols found show ?thesis by (simp add: getThemeColors_def)
qed

text \<open>
  C4 at a failing input. The theme name \<open>constructor\<close> is not among the built-in themes,
  yet it resolves with no warning: the list of warnings is empty, where the claim says that
  a warning is emitted. The name \<open>solarized\<close>, which the table does not inherit either,
  resolves to the same color table with the warning.
\<close>

theorem inherited_theme_name_not_warned:
  "''constructor'' \<notin> set (map fst (BUILT_IN_THEMES (themes sampleExternals)))
   \<and> getThemeColors sampleExternals (sampleConfig ''constructor'' [] False)
       = Inr (sampleColors, [])
   \<and> getThemeColors sampleExternals (sampleConfig ''solarized'' [] False)
       = Inr (sampleColors,
              [''Built-in theme '' @ [CHR 0x27] @ ''solarized'' @ [CHR 0x27]
                 @ '' not found, falling back to '' @ [CHR 0x27] @ ''dark''
                 @ [CHR 0x27] @ '' theme''])"
  by code_simp

text \<open>
  C5. When the configured theme is \<open>custom\<close> and the configuration holds no custom color
  table, color resolution fails with an error and gives no color table. For every other
  theme name it gives a color table.
\<close>

theorem custom_theme_needs_colors:
  "(theme config = ''custom''
      \<and> (case colors config of None \<Rightarrow> None | Some k \<Rightarrow> custom k) = None
      \<longrightarrow> getThemeColors ext config
            = Inl (Error ''Custom theme selected but no colors provided in configuration''))
   \<and> (theme config \<noteq> ''custom'' \<longrightarrow> (\<exists>r. getThemeColors ext config = Inr r))"
proof -
  let ?cs = "colorSupportOf ext config"
  obtain d where d: "getTheme (themes ext) ''dark'' (Some ?cs) = Some (BuiltInTable d)"
    using getTheme_dark by blast
  have "\<exists>r. getThemeColors ext config = Inr r" if other: "theme config \<noteq> ''custom''"
  proof (cases "getTheme (themes ext) (theme config) (Some ?cs)")
    case None
    obtain cols where
      "resolveColors ext ?cs (Some (BuiltInTable d)) (Some (BuiltInTable d)) = Inr cols"
      using resolveColors_defined by blast
    with other None d show ?thesis by (simp add: getThemeColors_def)
  next
    case (Some ct)
    obtain cols where "resolveColors ext ?cs (Some ct) (Some (BuiltInTable d)) = Inr cols"
      using resolveColors_defined by blast
    with other Some d show ?thesis by (simp add: getThemeColors_def)
  qed
  moreover have "getThemeColors ext config
            = Inl (Error ''Custom theme selected but no colors provided in configuration'')"
    if "theme config = ''custom''"
      and "(case colors config of None \<Rightarrow> None | Some k \<Rightarrow> custom k) = None"
    using that by (simp add: getThemeColors_def)
  ultimately show ?thesis by blast
qed

theorem custom_theme_needs_colors_witness:
  "getThemeColors sampleExternals (sampleConfig ''custom'' [] False)
     = Inl (Error ''Custom theme selected but no colors provided in configuration'')
   \<and> (\<exists>r. getThemeColors sampleExternals (sampleConfig ''nord'' [] False) = Inr r)"
proof -
  have a: "theme (sampleConfig ''custom'' [] False) = ''custom''
      \<and> (case colors (sampleConfig ''custom'' [] False) of None \<Rightarrow> None | Some k \<Rightarrow> custom k)
          = None"
    by (simp add: sampleConfig_def)
  have b: "theme (sampleConfig ''nord'' [] False) \<noteq> ''custom''"
    by (simp add: sampleConfig_def)
  from custom_theme_needs_colors [of "sampleConfig ''custom'' [] False" sampleExternals]
    custom_theme_needs_colors [of "sampleConfig ''nord'' [] False" sampleExternals] a b
  show ?thesis by blast
qed

section \<open>A configured line with no rendered segment\<close>

text \<open>
  With auto-wrap, a configured line with no rendered segment adds no physical line.
\<close>

lemma autoWrap_skips_empty_line: "wrapSegments vl sty terminalWidth [] = []"
  by (simp add: wrapSegments_def)

lemma renderLine_nothing_rendered:
  assumes "getThemeColors ext config = Inr (cols, ws)"
    and "renderedSegmentsOf rs cols lineConfig = []"
  shows "renderLine ext symbols rs config lineConfig = Inr (reset cols)"
proof -
  have none: "rs cols seg = None" if "seg \<in> set (enabledSegments lineConfig)" for seg
    using assms(2) that by (auto simp: renderedSegmentsOf_def split: option.splits)
  have "concat (map (\<lambda>(i, segment).
            case rs cols segment of
              None \<Rightarrow> []
            | Some segmentData \<Rightarrow> f i segmentData)
          (enumerate n segs)) = []" if "\<And>seg. seg \<in> set segs \<Longrightarrow> rs cols seg = None"
    for segs n and f :: "nat \<Rightarrow> SegmentData \<Rightarrow> string"
    using that by (induction segs arbitrary: n) auto
  from this [of "enabledSegments lineConfig"] none assms(1) show ?thesis
    by (simp add: renderLine_def Let_def)
qed

text \<open>
  C9 at a failing input. Without auto-wrap, at color level truecolor, with a first line
  that renders the model segment and a second line whose segments are disabled or give no
  data, the output ends with a line break followed by a line that holds the reset code
  only; the claim says that the second line adds nothing to the output.
\<close>

theorem empty_line_leaves_reset_code:
  "generateStatusline sampleExternals sampleSymbols sampleRender
     (sampleConfig ''dark''
        [\<lparr>segments = [(''model'', Some \<lparr>enabled = True\<rparr>)]\<rparr>,
         \<lparr>segments = [(''directory'', Some \<lparr>enabled = False\<rparr>),
                      (''version'', Some \<lparr>enabled = True\<rparr>)]\<rparr>]
        False)
   = Inr ([CHR 0x1B] @ ''[0mB#2d2d2dF#ffffff M Claude '' @ [CHR 0x1B] @ ''[0mxB#2d2d2d>''
          @ [CHR 0x1B] @ ''[0m'' @ [CHR 0x0A] @ [CHR 0x1B] @ ''[0m'')
   \<and> generateStatusline sampleExternals sampleSymbols sampleRender
     (sampleConfig ''dark''
        [\<lparr>segments = [(''model'', Some \<lparr>enabled = True\<rparr>)]\<rparr>]
        False)
   = Inr ([CHR 0x1B] @ ''[0mB#2d2d2dF#ffffff M Claude '' @ [CHR 0x1B] @ ''[0mxB#2d2d2d>''
          @ [CHR 0x1B] @ ''[0m'')
   \<and> generateStatusline sampleExternals sampleSymbols sampleRender
     (sampleConfig ''dark''
        [\<lparr>segments = [(''model'', Some \<lparr>enabled = True\<rparr>)]\<rparr>,
         \<lparr>segments = [(''directory'', Some \<lparr>enabled = False\<rparr>),
                      (''version'', Some \<lparr>enabled = True\<rparr>)]\<rparr>]
        True)
   = Inr ([CHR 0x1B] @ ''[0mB#2d2d2dF#ffffff M Claude '' @ [CHR 0x1B] @ ''[0mxB#2d2d2d>''
          @ [CHR 0x1B] @ ''[0m'')"
  by code_simp

end
